theory Spec2Isabelle
  imports Main "HOL-Library.Word"
begin

section \<open>Values shared by both source files\<close>

text \<open>
  A Go \<open>error\<close> is an interface value: \<open>nil\<close> is \<open>None\<close>, anything else is \<open>Some e\<close>.
  Only the identity of \<open>io.EOF\<close> and of the handler's own "target not available" error
  matters to the code; every other error is carried by its message.
\<close>

datatype error =
    EOF
  | TargetNotAvailable
  | ErrDup
  | OtherError string

text \<open>
  A method call on an interface value. A \<open>nil\<close> interface has no method table, so the Go
  runtime panics with a nil dereference; the panic is the \<open>Inl\<close> branch.
\<close>

datatype panic = NilDereference

section \<open>The host-mapper registry: \<open>registry/hosts.go\<close>\<close>

type_synonym IP = "8 word list"

text \<open>
  An implementation of \<open>hosts.HostMapper\<close>, given by its only method
  \<open>Lookup(network, host) ([]net.IP, bool)\<close>. A nil slice is \<open>None\<close>.
\<close>

type_synonym HostMapper = "string \<Rightarrow> string \<Rightarrow> IP list option \<times> bool"

text \<open>
  The embedded generic \<open>registry[hosts.HostMapper]\<close> is a mutable object that the wrappers
  reach through a pointer. The heap maps the address of a registry to its backing store, a
  name-keyed map.
\<close>

type_synonym store = "string \<rightharpoonup> HostMapper"
type_synonym ref = nat
type_synonym heap = "ref \<Rightarrow> store"

datatype policy = Overwrite | Reject

text \<open>
  Modelled from the spec: the generic \<open>registry[T]\<close> of this repository, whose \<open>Register\<close>
  and \<open>Get\<close> the hosts registry delegates to, is not among the sources. The spec (4.1):
  \<open>Register(name, impl)\<close> "stores impl under name. Fails with a DuplicateName error if
  policy forbids overwrite"; the policy is left to the implementer, so it is a parameter.
\<close>

definition registry_Register ::
  "policy \<Rightarrow> string \<Rightarrow> HostMapper \<Rightarrow> store \<Rightarrow> error option \<times> store" where
  "registry_Register p name v m =
     (if p = Reject \<and> m name \<noteq> None then (Some ErrDup, m)
      else (None, m(name \<mapsto> v)))"

text \<open>
  Modelled from the spec: the generic \<open>registry[T].Get\<close>, not among the sources. It returns
  what the backing store holds under the name, and the zero value of the interface
  (\<open>nil\<close>) when nothing is registered there.
\<close>

definition registry_Get :: "store \<Rightarrow> string \<Rightarrow> HostMapper option" where
  "registry_Get m name = m name"

text \<open>\<open>func (r *hostsRegistry) Register(name, v) error\<close>: delegates to the embedded registry.\<close>

definition hostsRegistry_Register ::
  "policy \<Rightarrow> ref \<Rightarrow> string \<Rightarrow> HostMapper \<Rightarrow> heap \<Rightarrow> error option \<times> heap" where
  "hostsRegistry_Register p r name v h =
     (case registry_Register p name v (h r) of (e, m) \<Rightarrow> (e, h(r := m)))"

text \<open>\<open>type hostsWrapper struct { name string; r *hostsRegistry }\<close>\<close>

record hostsWrapper =
  name :: string
  r :: ref

text \<open>
  \<open>func (r *hostsRegistry) Get(name string) hosts.HostMapper\<close>: a wrapper holding the name
  and the registry's address when the name is not empty, the \<open>nil\<close> interface otherwise.
  The store is not read.
\<close>

definition hostsRegistry_Get :: "ref \<Rightarrow> string \<Rightarrow> hostsWrapper option" where
  "hostsRegistry_Get rr nm =
     (if nm \<noteq> [] then Some \<lparr>name = nm, r = rr\<rparr> else None)"

text \<open>\<open>func (r *hostsRegistry) get(name string) hosts.HostMapper\<close>\<close>

definition hostsRegistry_get :: "heap \<Rightarrow> ref \<Rightarrow> string \<Rightarrow> HostMapper option" where
  "hostsRegistry_get h rr nm = registry_Get (h rr) nm"

text \<open>
  \<open>func (w *hostsWrapper) Lookup(network, host string) ([]net.IP, bool)\<close>, run against the
  heap as it is when the call is made.
\<close>

definition hostsWrapper_Lookup ::
  "heap \<Rightarrow> hostsWrapper \<Rightarrow> string \<Rightarrow> string \<Rightarrow> IP list option \<times> bool" where
  "hostsWrapper_Lookup h w network host =
     (case hostsRegistry_get h (r w) (name w) of
        None \<Rightarrow> (None, False)
      | Some v \<Rightarrow> v network host)"

text \<open>
  A caller invoking \<open>Lookup\<close> on the interface value that \<open>Get\<close> returned: dispatch to the
  wrapper when there is one, a panic on the \<open>nil\<close> interface.
\<close>

definition invoke_Lookup ::
  "heap \<Rightarrow> hostsWrapper option \<Rightarrow> string \<Rightarrow> string \<Rightarrow> panic + (IP list option \<times> bool)" where
  "invoke_Lookup h hm network host =
     (case hm of
        None \<Rightarrow> Inl NilDereference
      | Some w \<Rightarrow> Inr (hostsWrapper_Lookup h w network host))"

section \<open>Go standard library functions called by the handler\<close>

text \<open>
  \<open>net.SplitHostPort\<close> and \<open>net.JoinHostPort\<close> belong to Go's standard library, not to the
  repository; they are transcribed here because the handler's behaviour depends on which
  strings they reject. Indices are \<open>nat option\<close>, with \<open>None\<close> for Go's \<open>-1\<close>.
\<close>

definition IndexByte :: "string \<Rightarrow> char \<Rightarrow> nat option" where
  "IndexByte s c =
     (if c \<in> set s then Some (length (takeWhile (\<lambda>x. x \<noteq> c) s)) else None)"

definition LastIndexByte :: "string \<Rightarrow> char \<Rightarrow> nat option" where
  "LastIndexByte s c =
     (if c \<in> set s
      then Some (length s - 1 - length (takeWhile (\<lambda>x. x \<noteq> c) (rev s)))
      else None)"

definition missingPort :: error where
  "missingPort = OtherError ''missing port in address''"

definition tooManyColons :: error where
  "tooManyColons = OtherError ''too many colons in address''"

definition missingBracket :: error where
  "missingBracket = OtherError ''missing ']' in address''"

definition unexpectedOpen :: error where
  "unexpectedOpen = OtherError ''unexpected '[' in address''"

definition unexpectedClose :: error where
  "unexpectedClose = OtherError ''unexpected ']' in address''"

text \<open>
  The first half of \<open>SplitHostPort\<close>: given the index \<open>i\<close> of the last colon, the host and
  the two positions \<open>j\<close>, \<open>k\<close> from which stray brackets are then searched.
\<close>

definition SplitHostPort_host :: "string \<Rightarrow> nat \<Rightarrow> error + (string \<times> nat \<times> nat)" where
  "SplitHostPort_host hostport i =
     (if hostport ! 0 = CHR ''[''
      then (case IndexByte hostport CHR '']'' of
              None \<Rightarrow> Inl missingBracket
            | Some e \<Rightarrow>
                if e + 1 = length hostport then Inl missingPort
                else if e + 1 = i then Inr (take (e - 1) (drop 1 hostport), 1, e + 1)
                else if hostport ! (e + 1) = CHR '':'' then Inl tooManyColons
                else Inl missingPort)
      else (let host = take i hostport
            in if IndexByte host CHR '':'' \<noteq> None then Inl tooManyColons
               else Inr (host, 0, 0)))"

definition SplitHostPort :: "string \<Rightarrow> error + (string \<times> string)" where
  "SplitHostPort hostport =
     (case LastIndexByte hostport CHR '':'' of
        None \<Rightarrow> Inl missingPort
      | Some i \<Rightarrow>
          (case SplitHostPort_host hostport i of
             Inl e \<Rightarrow> Inl e
           | Inr (host, j, k) \<Rightarrow>
               if IndexByte (drop j hostport) CHR ''['' \<noteq> None then Inl unexpectedOpen
               else if IndexByte (drop k hostport) CHR '']'' \<noteq> None then Inl unexpectedClose
               else Inr (host, drop (i + 1) hostport)))"

definition JoinHostPort :: "string \<Rightarrow> string \<Rightarrow> string" where
  "JoinHostPort host port =
     (if IndexByte host CHR '':'' \<noteq> None then ''['' @ host @ '']:'' @ port
      else host @ '':'' @ port)"

text \<open>
  \<open>http.Header\<close> is \<open>map[string][]string\<close>. \<open>Set\<close> and \<open>Get\<close> first pass the key through
  \<open>textproto.CanonicalMIMEHeaderKey\<close>, which is taken as the parameter \<open>cn\<close>.
\<close>

type_synonym Header = "string \<rightharpoonup> string list"

definition Header_Set :: "(string \<Rightarrow> string) \<Rightarrow> Header \<Rightarrow> string \<Rightarrow> string \<Rightarrow> Header" where
  "Header_Set cn hdr key v = hdr(cn key \<mapsto> [v])"

definition Header_Get :: "(string \<Rightarrow> string) \<Rightarrow> Header \<Rightarrow> string \<Rightarrow> string" where
  "Header_Get cn hdr key =
     (case hdr (cn key) of
        None \<Rightarrow> []
      | Some [] \<Rightarrow> []
      | Some (v # _) \<Rightarrow> v)"

text \<open>
  The fields of \<open>http.Request\<close> that the handler and \<open>req.Write\<close> read. \<open>URL\<close> stands for
  the parsed \<open>*url.URL\<close>; \<open>http.ReadRequest\<close> moves the \<open>Host\<close> line of the message out of the
  header map into \<open>Host\<close>.
\<close>

record Request =
  Method :: string
  URL :: string
  Proto :: string
  Request_Header :: Header
  Request_Host :: string
  Body :: string










section \<open>The forward handler: data\<close>

text \<open>
  \<open>chain.HTTPNodeSettings\<close>: the host override and the extra headers. \<open>Header\<close> is a
  \<open>map[string]string\<close>; it is listed in the order in which the \<open>range\<close> loop of this
  session visits it, which Go leaves unspecified.
\<close>

record HTTPNodeSettings =
  Host :: string
  Header :: "(string \<times> string) list"

text \<open>
  \<open>chain.Node\<close> (package go-gost/core), reduced to what the handler reads: \<open>Addr\<close>, the
  result of \<open>Marker()\<close> (an interface value, \<open>None\<close> for nil, otherwise the identity of the
  marker object) and \<open>Options().HTTP\<close> (a pointer, \<open>None\<close> for nil).
\<close>

type_synonym Marker = nat

record Node =
  Addr :: string
  Marker :: "Marker option"
  HTTP :: "HTTPNodeSettings option"

text \<open>
  The accepted \<open>net.Conn\<close>: the strings of its two addresses and whether its dynamic type
  also implements \<open>net.PacketConn\<close>. Whatever else the connection carries is the record's
  extension, which the handler never reads.
\<close>

record Conn =
  RemoteAddr :: string
  LocalAddr :: string
  PacketConn :: bool

text \<open>
  \<open>forwardHandler\<close>, with its collaborators as the functions one session sees of them:
  \<open>hop.Select\<close> by host and protocol hint, \<open>router.Dial\<close> by network and address (\<open>None\<close>
  is a connection, \<open>Some e\<close> the error), \<open>md.sniffing\<close>, and \<open>options.RateLimiter\<close> by its
  \<open>Limiter(key)\<close>, a limiter being its \<open>Allow(n)\<close>. A nil interface or pointer is \<open>None\<close>.
\<close>

record forwardHandler =
  hop :: "(string \<Rightarrow> string \<Rightarrow> Node option) option"
  router :: "string \<Rightarrow> string \<Rightarrow> error option"
  sniffing :: bool
  RateLimiter :: "(string \<Rightarrow> (int \<Rightarrow> bool) option) option"

text \<open>
  What the two goroutines of \<open>handleHTTP\<close> meet on the wire: the requests that
  \<open>http.ReadRequest\<close> returns in turn, each with the result of the \<open>req.Write(dst)\<close> that
  follows it; the error \<open>ReadRequest\<close> returns once they are exhausted (\<open>io.EOF\<close> at a
  clean end of stream); the results of the two \<open>xnet.CopyBuffer\<close> calls, the raw copy
  after an upgrade and the response copy of the first goroutine; and which goroutine's send
  the receive on \<open>errc\<close> gets. \<open>canon\<close> is \<open>textproto.CanonicalMIMEHeaderKey\<close>. Every
  blocking call is taken to return: closing either connection unblocks it.
\<close>

datatype task = Passthrough | Rewrite

record http_io =
  canon :: "string \<Rightarrow> string"
  requests :: "(Request \<times> error option) list"
  read_err :: error
  upgrade_copy :: "error option"
  passthrough :: "error option"
  first :: task

text \<open>
  The rest of the session's surroundings: the host and protocol that \<open>forward.Sniffing\<close>
  returns and the error that \<open>xnet.Transport\<close> returns. Both, like \<open>xnet.CopyBuffer\<close>, are
  functions of this repository that are not among the sources, so their results are
  parameters.
\<close>

record world =
  sniffed :: "string \<times> string"
  transport :: "error option"
  http :: http_io

text \<open>
  The calls a session makes on its collaborators, in order. Informational and debug log
  lines are left out; \<open>log.Error\<close> is kept.
\<close>

datatype event =
    Allow string int
  | Sniffing
  | Select string string
  | LogError error
  | Dial string string
  | Mark Marker
  | Reset Marker
  | Transport "error option"
  | HandleHTTP "error option"
  | CloseCC
  | CloseConn

text \<open>How \<open>Handle\<close> leaves: by returning its error, or by a panic.\<close>

datatype outcome = Returned "error option" | Panicked panic

text \<open>
  What the rewrite goroutine does, in order, each call with what it returned. The dump of
  the request at trace level is a log line and is left out.
\<close>

datatype http_event =
    ReadRequest "error + Request"
  | Write Request "error option"
  | CopyBuffer "error option"
  | Send error

section \<open>The forward handler: operations\<close>

text \<open>
  Modelled from the spec: the constant \<open>forward.ProtoHTTP\<close> is declared in a package of
  this repository that is not among the sources. The spec (4.2) has the sniffer classify a
  stream "as \<open>"http"\<close>".
\<close>

definition ProtoHTTP :: string where
  "ProtoHTTP = ''http''"

text \<open>
  \<open>marker.Mark()\<close> and \<open>marker.Reset()\<close> on the interface value \<open>target.Marker()\<close>.
\<close>

definition Marker_Mark :: "Marker option \<Rightarrow> panic + event list" where
  "Marker_Mark m = (case m of None \<Rightarrow> Inl NilDereference | Some i \<Rightarrow> Inr [Mark i])"

definition Marker_Reset :: "Marker option \<Rightarrow> panic + event list" where
  "Marker_Reset m = (case m of None \<Rightarrow> Inl NilDereference | Some i \<Rightarrow> Inr [Reset i])"

text \<open>
  \<open>checkRateLimit\<close>, line 160: the limiter's key is the host that \<open>net.SplitHostPort\<close>
  returns for the remote address; the error is dropped, and with it the host is empty.
\<close>

definition rate_key :: "string \<Rightarrow> string" where
  "rate_key addr = (case SplitHostPort addr of Inl _ \<Rightarrow> [] | Inr (host, _) \<Rightarrow> host)"

text \<open>\<open>func (h *forwardHandler) checkRateLimit(addr net.Addr) bool\<close>\<close>

definition checkRateLimit :: "forwardHandler \<Rightarrow> string \<Rightarrow> event list \<times> bool" where
  "checkRateLimit h addr =
     (case RateLimiter h of
        None \<Rightarrow> ([], True)
      | Some rl \<Rightarrow>
          (case rl (rate_key addr) of
             Some limiter \<Rightarrow> ([Allow (rate_key addr) 1], limiter 1)
           | None \<Rightarrow> ([], True)))"

text \<open>\<open>Handle\<close>, lines 85 to 88.\<close>

definition network_of :: "'a Conn_scheme \<Rightarrow> string" where
  "network_of conn = (if PacketConn conn then ''udp'' else ''tcp'')"

text \<open>\<open>Handle\<close>, lines 90 to 98: the host and protocol hints, empty unless sniffed.\<close>

definition sniff :: "forwardHandler \<Rightarrow> 'a Conn_scheme \<Rightarrow> world \<Rightarrow> event list \<times> string \<times> string" where
  "sniff h conn w =
     (if sniffing h
      then (if network_of conn = ''tcp'' then ([Sniffing], sniffed w) else ([], [], []))
      else ([], [], []))"

text \<open>\<open>Handle\<close>, lines 100 to 102.\<close>

definition normalize_host :: "string \<Rightarrow> string" where
  "normalize_host host =
     (case SplitHostPort host of Inl _ \<Rightarrow> JoinHostPort host ''0'' | Inr _ \<Rightarrow> host)"

text \<open>
  \<open>Handle\<close>, lines 103 to 116: the node literal \<open>&chain.Node{Addr: host}\<close> leaves every
  other field at its zero value; with a hop attached the node is the one \<open>Select\<close> returns,
  if any.
\<close>

definition select_target :: "forwardHandler \<Rightarrow> string \<Rightarrow> string \<Rightarrow> event list \<times> Node option" where
  "select_target h host protocol =
     (case hop h of
        None \<Rightarrow> ([], Some \<lparr>Addr = host, Marker = None, HTTP = None\<rparr>)
      | Some hp \<Rightarrow> ([Select host protocol], hp host protocol))"

text \<open>\<open>handleHTTP\<close>, lines 183 to 188: the overrides applied to one parsed request.\<close>

definition set_headers :: "(string \<Rightarrow> string) \<Rightarrow> (string \<times> string) list \<Rightarrow> Request \<Rightarrow> Request" where
  "set_headers cn kvs req =
     foldl (\<lambda>rq (k, v). rq\<lparr>Request_Header := Header_Set cn (Request_Header rq) k v\<rparr>) req kvs"

definition apply_settings :: "(string \<Rightarrow> string) \<Rightarrow> HTTPNodeSettings \<Rightarrow> Request \<Rightarrow> Request" where
  "apply_settings cn hs req =
     set_headers cn (Header hs)
       (if Host hs \<noteq> [] then req\<lparr>Request_Host := Host hs\<rparr> else req)"

text \<open>\<open>handleHTTP\<close>, line 198: the test made on the request after it was written.\<close>

definition is_upgrade :: "(string \<Rightarrow> string) \<Rightarrow> Request \<Rightarrow> bool" where
  "is_upgrade cn req \<longleftrightarrow> Header_Get cn (Request_Header req) ''Upgrade'' = ''websocket''"

text \<open>
  \<open>handleHTTP\<close>, lines 176 to 211: the loop of the second goroutine, with the error it
  ends on. The closure returns nil only after a request that was written and is no upgrade;
  any other return leaves the loop.
\<close>

fun rewrite_loop ::
  "(string \<Rightarrow> string) \<Rightarrow> HTTPNodeSettings \<Rightarrow> error option \<Rightarrow> error \<Rightarrow>
   (Request \<times> error option) list \<Rightarrow> http_event list \<times> error" where
  "rewrite_loop cn hs rc rerr [] = ([ReadRequest (Inl rerr)], rerr)"
| "rewrite_loop cn hs rc rerr ((req, wr) # rest) =
     (case wr of
        Some e \<Rightarrow> ([ReadRequest (Inr req), Write (apply_settings cn hs req) wr], e)
      | None \<Rightarrow>
          if is_upgrade cn (apply_settings cn hs req)
          then ([ReadRequest (Inr req), Write (apply_settings cn hs req) None,
                 CopyBuffer rc],
                (case rc of None \<Rightarrow> EOF | Some e \<Rightarrow> e))
          else (case rewrite_loop cn hs rc rerr rest of
                  (tr, e) \<Rightarrow>
                    (ReadRequest (Inr req) # Write (apply_settings cn hs req) None # tr, e)))"

text \<open>The second goroutine: the loop, then the send of its error on \<open>errc\<close>.\<close>

definition rewrite_task :: "HTTPNodeSettings \<Rightarrow> http_io \<Rightarrow> http_event list \<times> error" where
  "rewrite_task hs io =
     (case rewrite_loop (canon io) hs (upgrade_copy io) (read_err io) (requests io) of
        (tr, e) \<Rightarrow> (tr @ [Send e], e))"

text \<open>
  \<open>handleHTTP\<close>, line 214: the value received from \<open>errc\<close>. The first goroutine sends the
  result of its copy, nil included; the second sends the error its loop ended on.
\<close>

definition first_result :: "HTTPNodeSettings \<Rightarrow> http_io \<Rightarrow> error option" where
  "first_result hs io =
     (case first io of
        Passthrough \<Rightarrow> passthrough io
      | Rewrite \<Rightarrow> Some (snd (rewrite_task hs io)))"

text \<open>\<open>func (h *forwardHandler) handleHTTP(ctx, src, dst, httpSettings, log) error\<close>\<close>

definition handleHTTP :: "HTTPNodeSettings \<Rightarrow> http_io \<Rightarrow> error option" where
  "handleHTTP hs io =
     (let err = first_result hs io
      in if err \<noteq> None \<and> err \<noteq> Some EOF then err else None)"

text \<open>
  \<open>Handle\<close>, lines 142 to 147: the relay. The event carries what the call returned; the
  handler does not bind it.
\<close>

definition relay :: "string \<Rightarrow> Node \<Rightarrow> world \<Rightarrow> event list" where
  "relay protocol target w =
     (if protocol = ProtoHTTP
      then (case HTTP target of
              Some hs \<Rightarrow> [HandleHTTP (handleHTTP hs (http w))]
            | None \<Rightarrow> [Transport (transport w)])
      else [Transport (transport w)])"

text \<open>
  \<open>Handle\<close>, lines 124 to 153: dial, marker feedback, relay, \<open>return nil\<close>. The deferred
  \<open>cc.Close()\<close> runs when the function leaves after a successful dial.
\<close>

definition dial_and_relay ::
  "forwardHandler \<Rightarrow> string \<Rightarrow> string \<Rightarrow> Node \<Rightarrow> world \<Rightarrow> event list \<times> outcome" where
  "dial_and_relay h network protocol target w =
     (case router h network (Addr target) of
        Some err \<Rightarrow>
          (if Marker target \<noteq> None
           then (case Marker_Mark (Marker target) of
                   Inl p \<Rightarrow> ([Dial network (Addr target), LogError err], Panicked p)
                 | Inr ev \<Rightarrow>
                     ([Dial network (Addr target), LogError err] @ ev, Returned (Some err)))
           else ([Dial network (Addr target), LogError err], Returned (Some err)))
      | None \<Rightarrow>
          (if Marker target \<noteq> None
           then (case Marker_Reset (Marker target) of
                   Inl p \<Rightarrow> ([Dial network (Addr target), CloseCC], Panicked p)
                 | Inr ev \<Rightarrow>
                     ([Dial network (Addr target)] @ ev @ relay protocol target w @ [CloseCC],
                      Returned None))
           else ([Dial network (Addr target)] @ relay protocol target w @ [CloseCC],
                 Returned None)))"

text \<open>
  \<open>func (h *forwardHandler) Handle(ctx, conn, opts...) error\<close>. The deferred
  \<open>conn.Close()\<close> ends every path.
\<close>

definition Handle :: "forwardHandler \<Rightarrow> 'a Conn_scheme \<Rightarrow> world \<Rightarrow> event list \<times> outcome" where
  "Handle h conn w =
     (case checkRateLimit h (RemoteAddr conn) of
        (ev0, False) \<Rightarrow> (ev0 @ [CloseConn], Returned None)
      | (ev0, True) \<Rightarrow>
          (case sniff h conn w of
             (ev1, host, protocol) \<Rightarrow>
               (case select_target h (normalize_host host) protocol of
                  (ev2, None) \<Rightarrow>
                    (ev0 @ ev1 @ ev2 @ [LogError TargetNotAvailable, CloseConn],
                     Returned (Some TargetNotAvailable))
                | (ev2, Some target) \<Rightarrow>
                    (case dial_and_relay h (network_of conn) protocol target w of
                       (ev3, out) \<Rightarrow> (ev0 @ ev1 @ ev2 @ ev3 @ [CloseConn], out)))))"

section \<open>Predicates on traces and sample inputs\<close>

text \<open>
  \<open>is_Dial\<close> picks the dial attempts out of a trace. The remaining constants are concrete
  handlers, connections, surroundings, requests and host mappers on which the theorems
  below are instantiated.
\<close>

fun is_Dial :: "event \<Rightarrow> bool" where
  "is_Dial (Dial n a) = True"
| "is_Dial _ = False"

definition sample_io :: http_io where
  "sample_io =
     \<lparr>canon = (\<lambda>k. k), requests = [], read_err = EOF, upgrade_copy = None,
      passthrough = None, first = Passthrough\<rparr>"

definition sample_world :: world where
  "sample_world = \<lparr>sniffed = ([], []), transport = None, http = sample_io\<rparr>"

definition client_conn :: Conn where
  "client_conn =
     \<lparr>RemoteAddr = ''198.51.100.7:40000'', LocalAddr = ''203.0.113.1:8080'',
      PacketConn = False\<rparr>"

definition direct_handler :: forwardHandler where
  "direct_handler =
     \<lparr>hop = None, router = (\<lambda>network address. None), sniffing = False, RateLimiter = None\<rparr>"

definition limited_handler :: forwardHandler where
  "limited_handler =
     direct_handler\<lparr>RateLimiter :=
       Some (\<lambda>key. if key = ''198.51.100.7'' then Some (\<lambda>n. False)
                    else if key = ''198.51.100.8'' then Some (\<lambda>n. True) else None)\<rparr>"

definition reset_error :: error where
  "reset_error = OtherError ''connection reset by peer''"

definition refused_error :: error where
  "refused_error = OtherError ''connection refused''"

definition rewrite_settings :: HTTPNodeSettings where
  "rewrite_settings = \<lparr>Host = ''new'', Header = [(''X-Forwarded'', ''1'')]\<rparr>"

definition node_up :: Node where
  "node_up = \<lparr>Addr = ''10.0.0.5:8080'', Marker = Some 7, HTTP = Some rewrite_settings\<rparr>"

definition node_down :: Node where
  "node_down = \<lparr>Addr = ''10.0.0.6:8080'', Marker = Some 8, HTTP = None\<rparr>"

definition hop_handler :: forwardHandler where
  "hop_handler =
     \<lparr>hop = Some (\<lambda>host protocol.
               if host = ''up.example:0'' then Some node_up
               else if host = ''down.example:0'' then Some node_down
               else None),
      router = (\<lambda>network address.
               if address = ''10.0.0.6:8080'' then Some refused_error else None),
      sniffing = True, RateLimiter = None\<rparr>"

definition refusing_handler :: forwardHandler where
  "refusing_handler = direct_handler\<lparr>router := (\<lambda>network address. Some refused_error)\<rparr>"

definition up_world :: world where
  "up_world = sample_world\<lparr>sniffed := (''up.example'', ''http'')\<rparr>"

definition down_world :: world where
  "down_world = sample_world\<lparr>sniffed := (''down.example'', [])\<rparr>"

definition nowhere_world :: world where
  "nowhere_world = sample_world\<lparr>sniffed := (''nowhere.example'', [])\<rparr>"

definition reset_world :: world where
  "reset_world = sample_world\<lparr>transport := Some reset_error\<rparr>"

definition up_reset_world :: world where
  "up_reset_world = up_world\<lparr>http := sample_io\<lparr>passthrough := Some reset_error\<rparr>\<rparr>"

definition routed_conn :: "string Conn_scheme" where
  "routed_conn =
     \<lparr>RemoteAddr = ''198.51.100.7:40000'', LocalAddr = ''203.0.113.1:8080'',
      PacketConn = False, \<dots> = ''example.com:443''\<rparr>"

definition ipA :: IP where
  "ipA = [10, 0, 0, 1]"

definition ipB :: IP where
  "ipB = [10, 0, 0, 2]"

definition mapperA :: HostMapper where
  "mapperA = (\<lambda>network host. (Some [ipA], True))"

definition mapperB :: HostMapper where
  "mapperB = (\<lambda>network host. (Some [ipB], True))"

definition empty_heap :: heap where
  "empty_heap = (\<lambda>rr. Map.empty)"

definition plain_request :: Request where
  "plain_request =
     \<lparr>Method = ''GET'', URL = ''/'', Proto = ''HTTP/1.1'', Request_Header = Map.empty,
      Request_Host = ''old'', Body = []\<rparr>"


definition websocket_request :: Request where
  "websocket_request =
     \<lparr>Method = ''GET'', URL = ''/chat'', Proto = ''HTTP/1.1'',
      Request_Header = [''Upgrade'' \<mapsto> [''websocket''], ''Connection'' \<mapsto> [''Upgrade'']],
      Request_Host = ''old'', Body = []\<rparr>"

definition h2c_settings :: HTTPNodeSettings where
  "h2c_settings = \<lparr>Host = [], Header = [(''Upgrade'', ''h2c'')]\<rparr>"

definition upgrade_io :: http_io where
  "upgrade_io =
     \<lparr>canon = (\<lambda>k. k),
      requests = [(plain_request, None), (websocket_request, None), (plain_request, None)],
      read_err = EOF, upgrade_copy = None, passthrough = None, first = Rewrite\<rparr>"

section \<open>Auxiliary facts\<close>

lemma dial_and_relay_failure:
  "router h n (Addr t) = Some e \<Longrightarrow>
   dial_and_relay h n p t w =
     ([Dial n (Addr t), LogError e] @ (case Marker t of None \<Rightarrow> [] | Some m \<Rightarrow> [Mark m]),
      Returned (Some e))"
  by (simp add: dial_and_relay_def Marker_Mark_def split: option.splits)

lemma dial_and_relay_success:
  "router h n (Addr t) = None \<Longrightarrow>
   dial_and_relay h n p t w =
     ([Dial n (Addr t)] @ (case Marker t of None \<Rightarrow> [] | Some m \<Rightarrow> [Reset m]) @
        relay p t w @ [CloseCC],
      Returned None)"
  by (simp add: dial_and_relay_def Marker_Reset_def split: option.splits)

lemma Handle_denied:
  "\<not> snd (checkRateLimit h (RemoteAddr c)) \<Longrightarrow>
   Handle h c w = (fst (checkRateLimit h (RemoteAddr c)) @ [CloseConn], Returned None)"
  by (cases "checkRateLimit h (RemoteAddr c)") (simp add: Handle_def)

lemma Handle_admitted:
  "snd (checkRateLimit h (RemoteAddr c)) \<Longrightarrow>
   Handle h c w =
     (case select_target h (normalize_host (fst (snd (sniff h c w)))) (snd (snd (sniff h c w))) of
        (ev2, None) \<Rightarrow>
          (fst (checkRateLimit h (RemoteAddr c)) @ fst (sniff h c w) @ ev2 @
             [LogError TargetNotAvailable, CloseConn],
           Returned (Some TargetNotAvailable))
      | (ev2, Some target) \<Rightarrow>
          (fst (checkRateLimit h (RemoteAddr c)) @ fst (sniff h c w) @ ev2 @
             fst (dial_and_relay h (network_of c) (snd (snd (sniff h c w))) target w) @ [CloseConn],
           snd (dial_and_relay h (network_of c) (snd (snd (sniff h c w))) target w)))"
  by (cases "checkRateLimit h (RemoteAddr c)"; cases "sniff h c w")
     (simp add: Handle_def split: prod.splits option.splits)

lemma no_dial_checkRateLimit: "filter is_Dial (fst (checkRateLimit h a)) = []"
  by (simp add: checkRateLimit_def split: option.splits)

lemma no_dial_sniff: "filter is_Dial (fst (sniff h c w)) = []"
  by (simp add: sniff_def)

lemma no_dial_select: "select_target h x y = (ev, t) \<Longrightarrow> filter is_Dial ev = []"
  by (auto simp add: select_target_def split: option.splits)

lemma no_dial_relay: "filter is_Dial (relay p t w) = []"
  by (simp add: relay_def split: option.splits)

lemma one_dial_dial_and_relay:
  "filter is_Dial (fst (dial_and_relay h n p t w)) = [Dial n (Addr t)]"
  by (cases "router h n (Addr t)")
     (simp_all add: dial_and_relay_failure dial_and_relay_success no_dial_relay split: option.splits)

lemma at_most_one_dial: "length (filter is_Dial (fst (Handle h c w))) \<le> 1"
proof (cases "snd (checkRateLimit h (RemoteAddr c))")
  case False
  then show ?thesis by (simp add: Handle_denied no_dial_checkRateLimit)
next
  case True
  obtain ev2 t where s: "select_target h (normalize_host (fst (snd (sniff h c w)))) (snd (snd (sniff h c w))) = (ev2, t)"
    by (cases "select_target h (normalize_host (fst (snd (sniff h c w)))) (snd (snd (sniff h c w)))")
  show ?thesis
    using True s no_dial_select[OF s]
    by (cases t) (simp_all add: Handle_admitted no_dial_checkRateLimit no_dial_sniff one_dial_dial_and_relay)
qed

lemma IndexByte_None: "c \<notin> set s \<Longrightarrow> IndexByte s c = None"
  by (simp add: IndexByte_def)

lemma LastIndexByte_append:
  "c \<notin> set t \<Longrightarrow> LastIndexByte (s @ c # t) c = Some (length s)"
  by (simp add: LastIndexByte_def takeWhile_append)

lemma SplitHostPort_plain:
  assumes "set host \<inter> {CHR '':'', CHR ''['', CHR '']''} = {}"
      and "set port \<inter> {CHR '':'', CHR ''['', CHR '']''} = {}"
  shows "SplitHostPort (host @ '':'' @ port) = Inr (host, port)"
proof -
  have i: "LastIndexByte (host @ '':'' @ port) CHR '':'' = Some (length host)"
    using assms(2) LastIndexByte_append[of "CHR '':''" port host] by simp
  have z: "(host @ '':'' @ port) ! 0 \<noteq> CHR ''[''"
    using assms(1) by (cases host) auto
  have h: "SplitHostPort_host (host @ '':'' @ port) (length host) = Inr (host, 0, 0)"
    using z assms(1) by (simp add: SplitHostPort_host_def IndexByte_None)
  have b: "IndexByte (host @ '':'' @ port) CHR ''['' = None"
          "IndexByte (host @ '':'' @ port) CHR '']'' = None"
    using assms by (auto intro!: IndexByte_None)
  show ?thesis
    using i h b by (simp add: SplitHostPort_def)
qed

lemma no_dial_in: "filter is_Dial evs = [] \<Longrightarrow> Dial n a \<notin> set evs"
  by (induction evs) (auto split: if_splits)

lemma rate_key_samples:
  "rate_key ''198.51.100.7:40000'' = ''198.51.100.7''"
  "rate_key ''198.51.100.8:40000'' = ''198.51.100.8''"
  "rate_key ''192.0.2.9:1234'' = ''192.0.2.9''"
  by (simp_all add: rate_key_def SplitHostPort_def SplitHostPort_host_def LastIndexByte_def
      IndexByte_def)

lemma Handle_no_target:
  assumes "snd (checkRateLimit h (RemoteAddr c))"
      and "sniff h c w = (ev1, host, protocol)"
      and "select_target h (normalize_host host) protocol = (ev2, None)"
  shows "Handle h c w =
           (fst (checkRateLimit h (RemoteAddr c)) @ ev1 @ ev2 @
              [LogError TargetNotAvailable, CloseConn],
            Returned (Some TargetNotAvailable))"
  using assms by (simp add: Handle_admitted)

lemma Handle_dial_failure:
  assumes "snd (checkRateLimit h (RemoteAddr c))"
      and "sniff h c w = (ev1, host, protocol)"
      and "select_target h (normalize_host host) protocol = (ev2, Some t)"
      and "router h (network_of c) (Addr t) = Some e"
  shows "Handle h c w =
           (fst (checkRateLimit h (RemoteAddr c)) @ ev1 @ ev2 @
              [Dial (network_of c) (Addr t), LogError e] @
              (case Marker t of None \<Rightarrow> [] | Some m \<Rightarrow> [Mark m]) @ [CloseConn],
            Returned (Some e))"
  using assms by (simp add: Handle_admitted dial_and_relay_failure)

lemma Handle_dial_success:
  assumes "snd (checkRateLimit h (RemoteAddr c))"
      and "sniff h c w = (ev1, host, protocol)"
      and "select_target h (normalize_host host) protocol = (ev2, Some t)"
      and "router h (network_of c) (Addr t) = None"
  shows "Handle h c w =
           (fst (checkRateLimit h (RemoteAddr c)) @ ev1 @ ev2 @
              [Dial (network_of c) (Addr t)] @
              (case Marker t of None \<Rightarrow> [] | Some m \<Rightarrow> [Reset m]) @
              relay protocol t w @ [CloseCC, CloseConn],
            Returned None)"
  using assms by (simp add: Handle_admitted dial_and_relay_success)

lemma normalize_host_samples:
  "normalize_host [] = '':0''"
  "normalize_host ''up.example'' = ''up.example:0''"
  "normalize_host ''down.example'' = ''down.example:0''"
  "normalize_host ''nowhere.example'' = ''nowhere.example:0''"
  by (simp_all add: normalize_host_def SplitHostPort_def LastIndexByte_def JoinHostPort_def
      IndexByte_def)

lemma events_checkRateLimit: "x \<in> set (fst (checkRateLimit h a)) \<Longrightarrow> \<exists>k n. x = Allow k n"
  by (auto simp: checkRateLimit_def split: option.splits)

lemma events_sniff: "x \<in> set (fst (sniff h c w)) \<Longrightarrow> x = Sniffing"
  by (auto simp: sniff_def split: if_splits)

lemma events_select: "select_target h a b = (ev, t) \<Longrightarrow> x \<in> set ev \<Longrightarrow> \<exists>k n. x = Select k n"
  by (auto simp: select_target_def split: option.splits)

lemma Handle_cases:
  obtains
    (denied) "\<not> snd (checkRateLimit h (RemoteAddr c))"
      "Handle h c w = (fst (checkRateLimit h (RemoteAddr c)) @ [CloseConn], Returned None)"
  | (no_target) ev1 host protocol ev2 where
      "sniff h c w = (ev1, host, protocol)"
      "select_target h (normalize_host host) protocol = (ev2, None)"
      "Handle h c w =
         (fst (checkRateLimit h (RemoteAddr c)) @ ev1 @ ev2 @
            [LogError TargetNotAvailable, CloseConn],
          Returned (Some TargetNotAvailable))"
  | (dial_failed) ev1 host protocol ev2 t e where
      "sniff h c w = (ev1, host, protocol)"
      "select_target h (normalize_host host) protocol = (ev2, Some t)"
      "router h (network_of c) (Addr t) = Some e"
      "Handle h c w =
         (fst (checkRateLimit h (RemoteAddr c)) @ ev1 @ ev2 @
            [Dial (network_of c) (Addr t), LogError e] @
            (case Marker t of None \<Rightarrow> [] | Some m \<Rightarrow> [Mark m]) @ [CloseConn],
          Returned (Some e))"
  | (relayed) ev1 host protocol ev2 t where
      "sniff h c w = (ev1, host, protocol)"
      "select_target h (normalize_host host) protocol = (ev2, Some t)"
      "router h (network_of c) (Addr t) = None"
      "Handle h c w =
         (fst (checkRateLimit h (RemoteAddr c)) @ ev1 @ ev2 @
            [Dial (network_of c) (Addr t)] @
            (case Marker t of None \<Rightarrow> [] | Some m \<Rightarrow> [Reset m]) @
            relay protocol t w @ [CloseCC, CloseConn],
          Returned None)"
proof (cases "snd (checkRateLimit h (RemoteAddr c))")
  case False
  then show ?thesis using denied Handle_denied by blast
next
  case True
  obtain ev1 host protocol where sn: "sniff h c w = (ev1, host, protocol)"
    by (cases "sniff h c w") auto
  obtain ev2 t where sel: "select_target h (normalize_host host) protocol = (ev2, t)"
    by (cases "select_target h (normalize_host host) protocol") auto
  show ?thesis
  proof (cases t)
    case None
    then show ?thesis using no_target[OF sn] sel Handle_no_target[OF True sn] by blast
  next
    case (Some nd)
    show ?thesis
    proof (cases "router h (network_of c) (Addr nd)")
      case None
      then show ?thesis
        using relayed[OF sn] sel Some Handle_dial_success[OF True sn] by blast
    next
      case (Some e)
      then show ?thesis
        using dial_failed[OF sn] sel \<open>t = Some nd\<close> Handle_dial_failure[OF True sn] by blast
    qed
  qed
qed

lemma handleHTTP_result:
  "(handleHTTP hs io = None \<longleftrightarrow> first_result hs io = None \<or> first_result hs io = Some EOF) \<and>
   (\<forall>e. handleHTTP hs io = Some e \<longleftrightarrow> first_result hs io = Some e \<and> e \<noteq> EOF)"
  by (cases "first_result hs io") (auto simp: handleHTTP_def Let_def)

lemma Handle_direct_reset:
  "Handle direct_handler client_conn reset_world =
     ([Dial ''tcp'' '':0'', Transport (Some reset_error), CloseCC, CloseConn], Returned None)"
  by (simp add: Handle_def checkRateLimit_def sniff_def select_target_def dial_and_relay_def
      relay_def network_of_def normalize_host_samples direct_handler_def client_conn_def
      reset_world_def sample_world_def ProtoHTTP_def)

lemma first_result_up_reset:
  "first_result rewrite_settings (http up_reset_world) = Some reset_error"
  by (simp add: first_result_def up_reset_world_def sample_io_def)

lemma Handle_up_reset:
  "Handle hop_handler client_conn up_reset_world =
     ([Sniffing, Select ''up.example:0'' ''http'', Dial ''tcp'' ''10.0.0.5:8080'', Reset 7,
       HandleHTTP (Some reset_error), CloseCC, CloseConn],
      Returned None)"
  by (simp add: Handle_def checkRateLimit_def sniff_def select_target_def dial_and_relay_def
      relay_def network_of_def normalize_host_samples hop_handler_def client_conn_def
      up_reset_world_def up_world_def sample_world_def ProtoHTTP_def node_up_def
      Marker_Reset_def handleHTTP_def first_result_def sample_io_def reset_error_def)

lemma hop_session_facts:
  "snd (checkRateLimit hop_handler (RemoteAddr client_conn))"
  "fst (checkRateLimit hop_handler (RemoteAddr client_conn)) = []"
  "network_of client_conn = ''tcp''"
  "sniff hop_handler client_conn up_world = ([Sniffing], ''up.example'', ''http'')"
  "sniff hop_handler client_conn down_world = ([Sniffing], ''down.example'', [])"
  "sniff hop_handler client_conn nowhere_world = ([Sniffing], ''nowhere.example'', [])"
  by (simp_all add: checkRateLimit_def hop_handler_def client_conn_def network_of_def sniff_def
      up_world_def down_world_def nowhere_world_def sample_world_def)

lemma Register_Overwrite:
  "hostsRegistry_Register Overwrite rr n v h = (None, h(rr := (h rr)(n \<mapsto> v)))"
  by (simp add: hostsRegistry_Register_def registry_Register_def)

lemma Register_Reject:
  "hostsRegistry_Register Reject rr n v h =
     (if h rr n \<noteq> None then (Some ErrDup, h) else (None, h(rr := (h rr)(n \<mapsto> v))))"
  by (simp add: hostsRegistry_Register_def registry_Register_def)

lemma invoke_Lookup_handle:
  "n \<noteq> [] \<Longrightarrow>
   invoke_Lookup h (hostsRegistry_Get rr n) network host =
     Inr (case h rr n of None \<Rightarrow> (None, False) | Some v \<Rightarrow> v network host)"
  by (simp add: invoke_Lookup_def hostsRegistry_Get_def hostsWrapper_Lookup_def
      hostsRegistry_get_def registry_Get_def)

lemma mapper_samples:
  "mapperA ''ip4'' ''example.com'' = (Some [ipA], True)"
  "mapperB ''ip4'' ''example.com'' = (Some [ipB], True)"
  "ipA \<noteq> ipB"
  by (simp_all add: mapperA_def mapperB_def ipA_def ipB_def)







lemma rewrite_loop_prefix:
  assumes "\<forall>(r, wr) \<in> set pre. wr = None \<and> \<not> is_upgrade cn (apply_settings cn hs r)"
  shows "rewrite_loop cn hs rc rerr (pre @ rest) =
           (concat (map (\<lambda>(r, wr). [ReadRequest (Inr r), Write (apply_settings cn hs r) None]) pre) @
              fst (rewrite_loop cn hs rc rerr rest),
            snd (rewrite_loop cn hs rc rerr rest))"
  using assms
proof (induction pre)
  case Nil
  show ?case by simp
next
  case (Cons a pre)
  obtain r wr where a: "a = (r, wr)" by (cases a)
  have "wr = None" "\<not> is_upgrade cn (apply_settings cn hs r)"
    using Cons.prems a by auto
  moreover have "\<forall>(r, wr) \<in> set pre. wr = None \<and> \<not> is_upgrade cn (apply_settings cn hs r)"
    using Cons.prems by auto
  ultimately show ?case
    using Cons.IH a by (simp add: case_prod_unfold)
qed

lemma upgrade_samples:
  "is_upgrade (\<lambda>k. k) websocket_request"
  "is_upgrade (\<lambda>k. k) (apply_settings (\<lambda>k. k) rewrite_settings websocket_request)"
  "\<not> is_upgrade (\<lambda>k. k) (apply_settings (\<lambda>k. k) rewrite_settings plain_request)"
  "\<not> is_upgrade (\<lambda>k. k) (apply_settings (\<lambda>k. k) h2c_settings websocket_request)"
  "\<not> is_upgrade (\<lambda>k. k) (apply_settings (\<lambda>k. k) h2c_settings plain_request)"
  by (simp_all add: is_upgrade_def Header_Get_def apply_settings_def set_headers_def
      Header_Set_def websocket_request_def plain_request_def rewrite_settings_def
      h2c_settings_def)

section \<open>Claims\<close>

subsection \<open>C1\<close>

text \<open>
  C1, as stated, fails. In the first session the plain transport returns a connection
  reset, in the second \<open>handleHTTP\<close> returns one; both sessions dialled successfully, and
  in both \<open>Handle\<close> returns nil: lines 144 and 146 call the relay without binding its
  result, and line 153 is an unconditional \<open>return nil\<close>.
\<close>

theorem relay_error_counterexample:
  "transport reset_world = Some reset_error \<and> reset_error \<noteq> EOF \<and>
   Handle direct_handler client_conn reset_world =
     ([Dial ''tcp'' '':0'', Transport (Some reset_error), CloseCC, CloseConn], Returned None) \<and>
   handleHTTP rewrite_settings (http up_reset_world) = Some reset_error \<and>
   Handle hop_handler client_conn up_reset_world =
     ([Sniffing, Select ''up.example:0'' ''http'', Dial ''tcp'' ''10.0.0.5:8080'', Reset 7,
       HandleHTTP (Some reset_error), CloseCC, CloseConn],
      Returned None)"
  using Handle_direct_reset Handle_up_reset
  by (simp add: reset_world_def reset_error_def handleHTTP_def first_result_def
      up_reset_world_def sample_io_def)

text \<open>
  C1, amended. For every session in which the dial succeeded, and so for every session
  that ran either relay whatever it returned, \<open>Handle\<close> returns nil. \<open>handleHTTP\<close> on its own
  returns the first value received from its two goroutines when that is an error other than
  \<open>io.EOF\<close>, and nil when it is nil or \<open>io.EOF\<close>.
\<close>

theorem relay_result_is_discarded:
  "(\<forall>n a. Dial n a \<in> set (fst (Handle h c w)) \<longrightarrow> router h n a = None \<longrightarrow>
      snd (Handle h c w) = Returned None) \<and>
   (\<forall>e. Transport e \<in> set (fst (Handle h c w)) \<or> HandleHTTP e \<in> set (fst (Handle h c w)) \<longrightarrow>
      snd (Handle h c w) = Returned None) \<and>
   (handleHTTP hs io = None \<longleftrightarrow> first_result hs io = None \<or> first_result hs io = Some EOF) \<and>
   (\<forall>e. handleHTTP hs io = Some e \<longleftrightarrow> first_result hs io = Some e \<and> e \<noteq> EOF)"
proof -
  have "snd (Handle h c w) = Returned None"
    if "(\<exists>n a. Dial n a \<in> set (fst (Handle h c w)) \<and> router h n a = None) \<or>
        (\<exists>e. Transport e \<in> set (fst (Handle h c w)) \<or> HandleHTTP e \<in> set (fst (Handle h c w)))"
  proof (cases rule: Handle_cases[of h c w])
    case denied
    then show ?thesis by simp
  next
    case (no_target ev1 host protocol ev2)
    have "False"
      using that no_target events_checkRateLimit[of _ h "RemoteAddr c"] events_sniff[of _ h c w]
        events_select[OF no_target(2)]
      by auto
    then show ?thesis ..
  next
    case (dial_failed ev1 host protocol ev2 t e)
    have "False"
      using that dial_failed events_checkRateLimit[of _ h "RemoteAddr c"] events_sniff[of _ h c w]
        events_select[OF dial_failed(2)]
      by (auto split: option.splits)
    then show ?thesis ..
  next
    case (relayed ev1 host protocol ev2 t)
    then show ?thesis by simp
  qed
  then show ?thesis
    using handleHTTP_result[of hs io] by blast
qed

text \<open>
  C1, the amended statement at the session of the counterexample and at two inputs of
  \<open>handleHTTP\<close>.
\<close>

theorem relay_result_is_discarded_witness:
  "Dial ''tcp'' '':0'' \<in> set (fst (Handle direct_handler client_conn reset_world)) \<and>
   router direct_handler ''tcp'' '':0'' = None \<and>
   Transport (Some reset_error) \<in> set (fst (Handle direct_handler client_conn reset_world)) \<and>
   snd (Handle direct_handler client_conn reset_world) = Returned None \<and>
   first_result rewrite_settings (http up_reset_world) = Some reset_error \<and>
   reset_error \<noteq> EOF \<and>
   handleHTTP rewrite_settings (http up_reset_world) = Some reset_error \<and>
   first_result rewrite_settings sample_io = None \<and>
   handleHTTP rewrite_settings sample_io = None"
proof -
  have d: "Dial ''tcp'' '':0'' \<in> set (fst (Handle direct_handler client_conn reset_world))"
    by (simp add: Handle_direct_reset)
  have t: "Transport (Some reset_error) \<in> set (fst (Handle direct_handler client_conn reset_world))"
    by (simp add: Handle_direct_reset)
  have r: "router direct_handler ''tcp'' '':0'' = None"
    by (simp add: direct_handler_def)
  have f: "first_result rewrite_settings sample_io = None"
    by (simp add: first_result_def sample_io_def)
  have e: "reset_error \<noteq> EOF"
    by (simp add: reset_error_def)
  show ?thesis
    using d t r f e first_result_up_reset
      relay_result_is_discarded[of direct_handler client_conn reset_world rewrite_settings
        "http up_reset_world"]
      relay_result_is_discarded[of direct_handler client_conn reset_world rewrite_settings
        sample_io]
    by blast
qed

subsection \<open>C2\<close>

text \<open>
  C2, as stated, fails. A stream connection that carries the destination
  \<open>example.com:443\<close>, accepted on \<open>203.0.113.1:8080\<close>, handled with sniffing off and no hop:
  the host hint stays empty, \<open>net.SplitHostPort\<close> rejects it, and the address dialled is
  \<open>net.JoinHostPort("", "0")\<close>, that is \<open>:0\<close>. Nothing the connection carries is dialled.
\<close>

theorem embedded_destination_counterexample:
  "Conn.more routed_conn = ''example.com:443'' \<and>
   LocalAddr routed_conn = ''203.0.113.1:8080'' \<and>
   \<not> sniffing direct_handler \<and> hop direct_handler = None \<and> \<not> PacketConn routed_conn \<and>
   Handle direct_handler routed_conn sample_world =
     ([Dial ''tcp'' '':0'', Transport None, CloseCC, CloseConn], Returned None) \<and>
   Dial ''tcp'' (Conn.more routed_conn) \<notin> set (fst (Handle direct_handler routed_conn sample_world)) \<and>
   Dial ''tcp'' (LocalAddr routed_conn) \<notin> set (fst (Handle direct_handler routed_conn sample_world))"
  by (simp add: Handle_def checkRateLimit_def sniff_def select_target_def dial_and_relay_def
      relay_def network_of_def normalize_host_samples direct_handler_def routed_conn_def
      sample_world_def ProtoHTTP_def)

text \<open>
  C2, amended. For every admitted stream session with sniffing disabled and no hop
  attached, whatever the connection carries, the address passed to \<open>router.Dial\<close> is the
  placeholder \<open>:0\<close> on network \<open>tcp\<close>. If that dial succeeds the connection pair is handed
  to the plain transport and the session returns nil whatever the transport returned; if it
  fails the session returns the dial error.
\<close>

theorem direct_forward_dials_placeholder:
  assumes "\<not> sniffing h" and "hop h = None" and "\<not> PacketConn c"
      and "snd (checkRateLimit h (RemoteAddr c))"
  shows "(router h ''tcp'' '':0'' = None \<longrightarrow>
            Handle h c w =
              (fst (checkRateLimit h (RemoteAddr c)) @
                 [Dial ''tcp'' '':0'', Transport (transport w), CloseCC, CloseConn],
               Returned None)) \<and>
         (\<forall>e. router h ''tcp'' '':0'' = Some e \<longrightarrow>
            Handle h c w =
              (fst (checkRateLimit h (RemoteAddr c)) @
                 [Dial ''tcp'' '':0'', LogError e, CloseConn],
               Returned (Some e)))"
proof -
  let ?t = "\<lparr>Addr = '':0'', Marker = None, HTTP = None\<rparr>"
  have sn: "sniff h c w = ([], [], [])"
    using assms(1) by (simp add: sniff_def)
  have sel: "select_target h (normalize_host []) [] = ([], Some ?t)"
    using assms(2) by (simp add: select_target_def normalize_host_samples)
  have nw: "network_of c = ''tcp''"
    using assms(3) by (simp add: network_of_def)
  have rl: "relay [] ?t w = [Transport (transport w)]"
    by (simp add: relay_def ProtoHTTP_def)
  have ok: "Handle h c w =
              (fst (checkRateLimit h (RemoteAddr c)) @
                 [Dial ''tcp'' '':0'', Transport (transport w), CloseCC, CloseConn],
               Returned None)"
    if "router h ''tcp'' '':0'' = None"
    using Handle_dial_success[OF assms(4) sn sel] that nw rl by simp
  have bad: "Handle h c w =
              (fst (checkRateLimit h (RemoteAddr c)) @
                 [Dial ''tcp'' '':0'', LogError e, CloseConn],
               Returned (Some e))"
    if "router h ''tcp'' '':0'' = Some e" for e
    using Handle_dial_failure[OF assms(4) sn sel] that nw by simp
  show ?thesis using ok bad by blast
qed

text \<open>
  C2, the amended statement at a handler whose router connects and at one whose router
  refuses.
\<close>

theorem direct_forward_dials_placeholder_witness:
  "\<not> sniffing direct_handler \<and> hop direct_handler = None \<and> \<not> PacketConn routed_conn \<and>
   snd (checkRateLimit direct_handler (RemoteAddr routed_conn)) \<and>
   router direct_handler ''tcp'' '':0'' = None \<and>
   Handle direct_handler routed_conn reset_world =
     ([Dial ''tcp'' '':0'', Transport (Some reset_error), CloseCC, CloseConn], Returned None) \<and>
   \<not> sniffing refusing_handler \<and> hop refusing_handler = None \<and>
   snd (checkRateLimit refusing_handler (RemoteAddr routed_conn)) \<and>
   router refusing_handler ''tcp'' '':0'' = Some refused_error \<and>
   Handle refusing_handler routed_conn reset_world =
     ([Dial ''tcp'' '':0'', LogError refused_error, CloseConn], Returned (Some refused_error))"
proof -
  have a: "\<not> sniffing direct_handler" "hop direct_handler = None" "\<not> PacketConn routed_conn"
    "snd (checkRateLimit direct_handler (RemoteAddr routed_conn))"
    "router direct_handler ''tcp'' '':0'' = None"
    "fst (checkRateLimit direct_handler (RemoteAddr routed_conn)) = []"
    by (simp_all add: direct_handler_def routed_conn_def checkRateLimit_def)
  have b: "\<not> sniffing refusing_handler" "hop refusing_handler = None"
    "snd (checkRateLimit refusing_handler (RemoteAddr routed_conn))"
    "router refusing_handler ''tcp'' '':0'' = Some refused_error"
    "fst (checkRateLimit refusing_handler (RemoteAddr routed_conn)) = []"
    by (simp_all add: refusing_handler_def direct_handler_def routed_conn_def checkRateLimit_def)
  have t: "transport reset_world = Some reset_error"
    by (simp add: reset_world_def)
  show ?thesis
    using a b t
      direct_forward_dials_placeholder[OF a(1,2,3,4), of reset_world]
      direct_forward_dials_placeholder[OF b(1,2) a(3) b(3), of reset_world]
    by simp
qed

subsection \<open>C3\<close>

text \<open>
  C3, as stated, fails. The node's extra headers set \<open>Upgrade: h2c\<close>. A request parsed from
  the client with \<open>Upgrade: websocket\<close> has that header overwritten at lines 186 to 188, is
  written, and fails the test of line 198, which reads the rewritten request: the loop goes
  on to parse the next request and no raw copy is made.
\<close>

theorem upgrade_override_counterexample:
  "is_upgrade (\<lambda>k. k) websocket_request \<and>
   rewrite_loop (\<lambda>k. k) h2c_settings None EOF [(websocket_request, None), (plain_request, None)] =
     ([ReadRequest (Inr websocket_request),
       Write (apply_settings (\<lambda>k. k) h2c_settings websocket_request) None,
       ReadRequest (Inr plain_request),
       Write (apply_settings (\<lambda>k. k) h2c_settings plain_request) None,
       ReadRequest (Inl EOF)],
      EOF)"
  by (simp add: upgrade_samples)

text \<open>
  C3, amended. When the loop reaches a request (every earlier one was written and was no
  upgrade) whose headers, after the configured overrides, give \<open>websocket\<close> as the first
  \<open>Upgrade\<close> value, and the write of that request succeeds, then the rewrite task has written
  it exactly once, runs one raw copy from client to target, parses nothing after it, and
  ends by sending the copy's error, \<open>io.EOF\<close> when the copy returned nil.
\<close>

theorem upgrade_ends_http_parsing:
  assumes "requests io = pre @ (req, None) # post"
      and "\<forall>(r, wr) \<in> set pre. wr = None \<and> \<not> is_upgrade (canon io) (apply_settings (canon io) hs r)"
      and "is_upgrade (canon io) (apply_settings (canon io) hs req)"
  shows "rewrite_task hs io =
           (concat (map (\<lambda>(r, wr). [ReadRequest (Inr r), Write (apply_settings (canon io) hs r) None]) pre) @
              [ReadRequest (Inr req), Write (apply_settings (canon io) hs req) None,
               CopyBuffer (upgrade_copy io),
               Send (case upgrade_copy io of None \<Rightarrow> EOF | Some e \<Rightarrow> e)],
            (case upgrade_copy io of None \<Rightarrow> EOF | Some e \<Rightarrow> e)) \<and>
         Write (apply_settings (canon io) hs req) None \<notin>
           set (concat (map (\<lambda>(r, wr). [ReadRequest (Inr r), Write (apply_settings (canon io) hs r) None]) pre))"
proof -
  have "rewrite_loop (canon io) hs (upgrade_copy io) (read_err io) ((req, None) # post) =
          ([ReadRequest (Inr req), Write (apply_settings (canon io) hs req) None,
            CopyBuffer (upgrade_copy io)],
           (case upgrade_copy io of None \<Rightarrow> EOF | Some e \<Rightarrow> e))"
    using assms(3) by simp
  then have "rewrite_task hs io =
           (concat (map (\<lambda>(r, wr). [ReadRequest (Inr r), Write (apply_settings (canon io) hs r) None]) pre) @
              [ReadRequest (Inr req), Write (apply_settings (canon io) hs req) None,
               CopyBuffer (upgrade_copy io),
               Send (case upgrade_copy io of None \<Rightarrow> EOF | Some e \<Rightarrow> e)],
            (case upgrade_copy io of None \<Rightarrow> EOF | Some e \<Rightarrow> e))"
    using rewrite_loop_prefix[OF assms(2), of "upgrade_copy io" "read_err io" "(req, None) # post"]
    by (simp add: rewrite_task_def assms(1))
  moreover have "Write (apply_settings (canon io) hs req) None \<notin>
           set (concat (map (\<lambda>(r, wr). [ReadRequest (Inr r), Write (apply_settings (canon io) hs r) None]) pre))"
    using assms(2,3) by auto
  ultimately show ?thesis by blast
qed

text \<open>
  C3, the amended statement at a stream of three requests of which the second is an
  upgrade: the third is never parsed.
\<close>

theorem upgrade_ends_http_parsing_witness:
  "rewrite_task rewrite_settings upgrade_io =
     ([ReadRequest (Inr plain_request),
       Write (apply_settings (\<lambda>k. k) rewrite_settings plain_request) None,
       ReadRequest (Inr websocket_request),
       Write (apply_settings (\<lambda>k. k) rewrite_settings websocket_request) None,
       CopyBuffer None, Send EOF],
      EOF)"
proof -
  have r: "requests upgrade_io = [(plain_request, None)] @ (websocket_request, None) # [(plain_request, None)]"
    by (simp add: upgrade_io_def)
  have c: "canon upgrade_io = (\<lambda>k. k)" "upgrade_copy upgrade_io = None"
    by (simp_all add: upgrade_io_def)
  have p: "\<forall>(r, wr) \<in> set [(plain_request, None)].
             wr = None \<and> \<not> is_upgrade (canon upgrade_io) (apply_settings (canon upgrade_io) rewrite_settings r)"
    by (simp add: c upgrade_samples)
  have u: "is_upgrade (canon upgrade_io) (apply_settings (canon upgrade_io) rewrite_settings websocket_request)"
    by (simp add: c upgrade_samples)
  show ?thesis
    using upgrade_ends_http_parsing[OF r p u] by (simp add: c)
qed

subsection \<open>C4\<close>




subsection \<open>C5\<close>

text \<open>
  C5, as stated, fails. For the empty name \<open>Get\<close> returns nil (line 21), so after the two
  registrations there is no handle that forwards to \<open>B\<close>: an invocation through the result
  panics. For a non-empty name, a registry whose policy forbids overwriting fails the second
  \<open>Register\<close> with the duplicate-name error, and the handle goes on answering with \<open>A\<close>.
\<close>

theorem late_binding_counterexample:
  "hostsRegistry_Get 0 [] = None \<and>
   invoke_Lookup
     (snd (hostsRegistry_Register Overwrite 0 [] mapperB
        (snd (hostsRegistry_Register Overwrite 0 [] mapperA empty_heap))))
     (hostsRegistry_Get 0 []) ''ip4'' ''example.com'' = Inl NilDereference \<and>
   fst (hostsRegistry_Register Reject 0 ''hosts-0'' mapperB
        (snd (hostsRegistry_Register Reject 0 ''hosts-0'' mapperA empty_heap))) = Some ErrDup \<and>
   invoke_Lookup
     (snd (hostsRegistry_Register Reject 0 ''hosts-0'' mapperB
        (snd (hostsRegistry_Register Reject 0 ''hosts-0'' mapperA empty_heap))))
     (hostsRegistry_Get 0 ''hosts-0'') ''ip4'' ''example.com'' = Inr (Some [ipA], True) \<and>
   mapperB ''ip4'' ''example.com'' = (Some [ipB], True) \<and>
   ipA \<noteq> ipB"
  by (simp add: Register_Reject Register_Overwrite invoke_Lookup_handle mapper_samples
      empty_heap_def)
     (simp add: hostsRegistry_Get_def invoke_Lookup_def)

text \<open>
  C5, amended. For every non-empty name \<open>n\<close>, register \<open>A\<close> under \<open>n\<close>, then \<open>B\<close>. \<open>Get(n)\<close>
  does not read the store, so it returns the same handle before and after the second
  registration: the name and the registry's address. Invoked, the handle forwards to what
  the store holds under \<open>n\<close> at that moment. Where the registry overwrites, that is \<open>A\<close>
  between the two registrations and \<open>B\<close> after the second. Where it rejects duplicates, the
  second \<open>Register\<close> fails with the duplicate-name error and the handle keeps forwarding to
  the implementation stored first.
\<close>

theorem late_binding:
  assumes "n \<noteq> []"
      and "h1 = snd (hostsRegistry_Register p rr n A h0)"
      and "h2 = snd (hostsRegistry_Register p rr n B h1)"
  shows "hostsRegistry_Get rr n = Some \<lparr>name = n, r = rr\<rparr> \<and>
         (p = Overwrite \<longrightarrow>
            fst (hostsRegistry_Register p rr n B h1) = None \<and>
            invoke_Lookup h1 (hostsRegistry_Get rr n) network host = Inr (A network host) \<and>
            invoke_Lookup h2 (hostsRegistry_Get rr n) network host = Inr (B network host)) \<and>
         (p = Reject \<longrightarrow>
            fst (hostsRegistry_Register p rr n B h1) = Some ErrDup \<and>
            invoke_Lookup h2 (hostsRegistry_Get rr n) network host =
              Inr (case h0 rr n of None \<Rightarrow> A network host | Some C \<Rightarrow> C network host))"
proof -
  have g: "hostsRegistry_Get rr n = Some \<lparr>name = n, r = rr\<rparr>"
    using assms(1) by (simp add: hostsRegistry_Get_def)
  have ow: "fst (hostsRegistry_Register p rr n B h1) = None \<and>
            invoke_Lookup h1 (hostsRegistry_Get rr n) network host = Inr (A network host) \<and>
            invoke_Lookup h2 (hostsRegistry_Get rr n) network host = Inr (B network host)"
    if "p = Overwrite"
    using that assms(2,3) by (simp add: Register_Overwrite invoke_Lookup_handle[OF assms(1)])
  have rj: "fst (hostsRegistry_Register p rr n B h1) = Some ErrDup \<and>
            invoke_Lookup h2 (hostsRegistry_Get rr n) network host =
              Inr (case h0 rr n of None \<Rightarrow> A network host | Some C \<Rightarrow> C network host)"
    if "p = Reject"
    using that assms(2,3)
    by (cases "h0 rr n") (simp_all add: Register_Reject invoke_Lookup_handle[OF assms(1)])
  show ?thesis
    using g ow rj by blast
qed

text \<open>
  C5, the amended statement at the name \<open>hosts-0\<close> in an empty registry, under both
  policies.
\<close>

theorem late_binding_witness:
  "''hosts-0'' \<noteq> [] \<and>
   hostsRegistry_Get 0 ''hosts-0'' = Some \<lparr>name = ''hosts-0'', r = 0\<rparr> \<and>
   invoke_Lookup (snd (hostsRegistry_Register Overwrite 0 ''hosts-0'' mapperA empty_heap))
     (hostsRegistry_Get 0 ''hosts-0'') ''ip4'' ''example.com'' = Inr (Some [ipA], True) \<and>
   invoke_Lookup
     (snd (hostsRegistry_Register Overwrite 0 ''hosts-0'' mapperB
        (snd (hostsRegistry_Register Overwrite 0 ''hosts-0'' mapperA empty_heap))))
     (hostsRegistry_Get 0 ''hosts-0'') ''ip4'' ''example.com'' = Inr (Some [ipB], True) \<and>
   invoke_Lookup
     (snd (hostsRegistry_Register Reject 0 ''hosts-0'' mapperB
        (snd (hostsRegistry_Register Reject 0 ''hosts-0'' mapperA empty_heap))))
     (hostsRegistry_Get 0 ''hosts-0'') ''ip4'' ''example.com'' = Inr (Some [ipA], True)"
proof -
  have n: "''hosts-0'' \<noteq> []" by simp
  have e: "empty_heap 0 ''hosts-0'' = None" by (simp add: empty_heap_def)
  show ?thesis
    using n e
      late_binding[where p = Overwrite and rr = 0 and A = mapperA and B = mapperB
        and ?h0.0 = empty_heap and network = "''ip4''" and host = "''example.com''",
        OF n refl refl]
      late_binding[where p = Reject and rr = 0 and A = mapperA and B = mapperB
        and ?h0.0 = empty_heap and network = "''ip4''" and host = "''example.com''",
        OF n refl refl]
    by (auto simp: mapper_samples)
qed

subsection \<open>C6\<close>

text \<open>
  C6, as stated, fails for the empty name. \<open>Get("")\<close> returns the nil interface (line 21),
  and a \<open>Lookup\<close> invoked through it panics.
\<close>

theorem empty_name_counterexample:
  "invoke_Lookup empty_heap (hostsRegistry_Get 0 []) ''ip4'' ''example.com'' = Inl NilDereference"
  by (simp add: hostsRegistry_Get_def invoke_Lookup_def)

text \<open>
  C6, amended. \<open>Get("")\<close> returns nil, through which no operation can be invoked without a
  panic. \<open>Get\<close> of a non-empty name under which nothing is registered returns a handle
  whose \<open>Lookup\<close> returns a nil IP list and false, without panicking.
\<close>

theorem unregistered_handle_is_inert:
  "hostsRegistry_Get rr [] = None \<and>
   invoke_Lookup h (hostsRegistry_Get rr []) network host = Inl NilDereference \<and>
   (nm \<noteq> [] \<longrightarrow> h rr nm = None \<longrightarrow>
      (\<exists>w. hostsRegistry_Get rr nm = Some w) \<and>
      invoke_Lookup h (hostsRegistry_Get rr nm) network host = Inr (None, False))"
  by (simp add: hostsRegistry_Get_def invoke_Lookup_def hostsWrapper_Lookup_def
      hostsRegistry_get_def registry_Get_def)

text \<open>
  C6, the amended statement at the name \<open>missing\<close> in an empty registry.
\<close>

theorem unregistered_handle_is_inert_witness:
  "''missing'' \<noteq> [] \<and> empty_heap 0 ''missing'' = None \<and>
   invoke_Lookup empty_heap (hostsRegistry_Get 0 ''missing'') ''ip4'' ''example.com'' =
     Inr (None, False)"
  using unregistered_handle_is_inert[of 0 empty_heap "''ip4''" "''example.com''" "''missing''"]
  by (simp add: empty_heap_def)

subsection \<open>C7\<close>

text \<open>
  C7. A session whose remote host is denied by its rate limiter ends at once: the limiter is
  asked, the connection is closed, \<open>Handle\<close> returns nil and nothing is dialled. With no
  rate limiter configured, or no limiter for the key, admission is granted without any call;
  with a limiter, the answer is its \<open>Allow(1)\<close>. The key is the host of the remote
  address with the port stripped.
\<close>

theorem rate_limit_denial_is_silent:
  "(\<not> snd (checkRateLimit h (RemoteAddr c)) \<longrightarrow>
      Handle h c w = ([Allow (rate_key (RemoteAddr c)) 1, CloseConn], Returned None) \<and>
      (\<forall>n a. Dial n a \<notin> set (fst (Handle h c w)))) \<and>
   (RateLimiter h = None \<longrightarrow> checkRateLimit h addr = ([], True)) \<and>
   (\<forall>rl. RateLimiter h = Some rl \<longrightarrow> rl (rate_key addr) = None \<longrightarrow>
      checkRateLimit h addr = ([], True)) \<and>
   (\<forall>rl limiter. RateLimiter h = Some rl \<longrightarrow> rl (rate_key addr) = Some limiter \<longrightarrow>
      checkRateLimit h addr = ([Allow (rate_key addr) 1], limiter 1)) \<and>
   (\<forall>host port.
      set host \<inter> {CHR '':'', CHR ''['', CHR '']''} = {} \<longrightarrow>
      set port \<inter> {CHR '':'', CHR ''['', CHR '']''} = {} \<longrightarrow>
      rate_key (host @ '':'' @ port) = host)"
proof -
  have denied: "Handle h c w = ([Allow (rate_key (RemoteAddr c)) 1, CloseConn], Returned None)"
    if d: "\<not> snd (checkRateLimit h (RemoteAddr c))"
  proof -
    have "fst (checkRateLimit h (RemoteAddr c)) = [Allow (rate_key (RemoteAddr c)) 1]"
      using d by (auto simp: checkRateLimit_def split: option.splits)
    then show ?thesis using Handle_denied[OF d, of w] by simp
  qed
  have key: "rate_key (host @ '':'' @ port) = host"
    if "set host \<inter> {CHR '':'', CHR ''['', CHR '']''} = {}"
       "set port \<inter> {CHR '':'', CHR ''['', CHR '']''} = {}" for host port
    using SplitHostPort_plain[OF that] by (simp add: rate_key_def)
  show ?thesis
    using denied key by (auto simp: checkRateLimit_def)
qed

text \<open>
  C7 at a limiter that denies \<open>198.51.100.7\<close>, allows \<open>198.51.100.8\<close> and knows no other
  key.
\<close>

theorem rate_limit_denial_is_silent_witness:
  "\<not> snd (checkRateLimit limited_handler (RemoteAddr client_conn)) \<and>
   Handle limited_handler client_conn sample_world =
     ([Allow ''198.51.100.7'' 1, CloseConn], Returned None) \<and>
   RateLimiter direct_handler = None \<and>
   checkRateLimit direct_handler ''198.51.100.7:40000'' = ([], True) \<and>
   checkRateLimit limited_handler ''192.0.2.9:1234'' = ([], True) \<and>
   checkRateLimit limited_handler ''198.51.100.8:40000'' = ([Allow ''198.51.100.8'' 1], True) \<and>
   rate_key (''198.51.100.7'' @ '':'' @ ''40000'') = ''198.51.100.7''"
proof -
  have d: "\<not> snd (checkRateLimit limited_handler (RemoteAddr client_conn))"
    by (simp add: checkRateLimit_def limited_handler_def client_conn_def rate_key_samples)
  have k: "RateLimiter limited_handler =
      Some (\<lambda>key. if key = ''198.51.100.7'' then Some (\<lambda>n. False)
                    else if key = ''198.51.100.8'' then Some (\<lambda>n. True) else None)"
    by (simp add: limited_handler_def)
  have n: "RateLimiter direct_handler = None"
    by (simp add: direct_handler_def)
  show ?thesis
    using d n
      rate_limit_denial_is_silent[of limited_handler client_conn sample_world "''192.0.2.9:1234''"]
      rate_limit_denial_is_silent[of limited_handler client_conn sample_world "''198.51.100.8:40000''"]
      rate_limit_denial_is_silent[of direct_handler client_conn sample_world "''198.51.100.7:40000''"]
    by (simp add: k rate_key_samples client_conn_def)
qed

subsection \<open>C8\<close>

text \<open>
  C8. No session dials more than once. When the dial to the resolved node fails, the trace
  ends with that one dial, the logged error and \<open>Mark()\<close> on the node's marker, and \<open>Handle\<close>
  returns the dial error. When it succeeds, \<open>Reset()\<close> on the node's marker comes between
  the dial and the relay.
\<close>

theorem single_dial_with_marker_feedback:
  "length (filter is_Dial (fst (Handle h c w))) \<le> 1 \<and>
   (snd (checkRateLimit h (RemoteAddr c)) \<longrightarrow>
    sniff h c w = (ev1, host, protocol) \<longrightarrow>
    select_target h (normalize_host host) protocol = (ev2, Some t) \<longrightarrow>
      (\<forall>e. router h (network_of c) (Addr t) = Some e \<longrightarrow>
         Handle h c w =
           (fst (checkRateLimit h (RemoteAddr c)) @ ev1 @ ev2 @
              [Dial (network_of c) (Addr t), LogError e] @
              (case Marker t of None \<Rightarrow> [] | Some m \<Rightarrow> [Mark m]) @ [CloseConn],
            Returned (Some e))) \<and>
      (router h (network_of c) (Addr t) = None \<longrightarrow>
         Handle h c w =
           (fst (checkRateLimit h (RemoteAddr c)) @ ev1 @ ev2 @
              [Dial (network_of c) (Addr t)] @
              (case Marker t of None \<Rightarrow> [] | Some m \<Rightarrow> [Reset m]) @
              relay protocol t w @ [CloseCC, CloseConn],
            Returned None)))"
  using at_most_one_dial[of h c w] Handle_dial_failure[of h c w ev1 host protocol ev2 t]
    Handle_dial_success[of h c w ev1 host protocol ev2 t]
  by blast

text \<open>
  C8 at a hop with one reachable and one unreachable node.
\<close>

theorem single_dial_with_marker_feedback_witness:
  "Handle hop_handler client_conn up_world =
     ([Sniffing, Select ''up.example:0'' ''http'', Dial ''tcp'' ''10.0.0.5:8080'', Reset 7,
       HandleHTTP None, CloseCC, CloseConn],
      Returned None) \<and>
   Handle hop_handler client_conn down_world =
     ([Sniffing, Select ''down.example:0'' [], Dial ''tcp'' ''10.0.0.6:8080'',
       LogError refused_error, Mark 8, CloseConn],
      Returned (Some refused_error)) \<and>
   length (filter is_Dial (fst (Handle hop_handler client_conn down_world))) \<le> 1"
proof -
  have up: "select_target hop_handler (normalize_host ''up.example'') ''http'' =
      ([Select ''up.example:0'' ''http''], Some node_up)"
    by (simp add: select_target_def hop_handler_def normalize_host_samples)
  have down: "select_target hop_handler (normalize_host ''down.example'') [] =
      ([Select ''down.example:0'' []], Some node_down)"
    by (simp add: select_target_def hop_handler_def normalize_host_samples)
  have r1: "router hop_handler (network_of client_conn) (Addr node_up) = None"
    by (simp add: hop_handler_def node_up_def)
  have r2: "router hop_handler (network_of client_conn) (Addr node_down) = Some refused_error"
    by (simp add: hop_handler_def node_down_def)
  have rl: "relay ''http'' node_up up_world = [HandleHTTP None]"
    by (simp add: relay_def ProtoHTTP_def node_up_def handleHTTP_def first_result_def
        up_world_def sample_world_def sample_io_def)
  show ?thesis
    using single_dial_with_marker_feedback[of hop_handler client_conn up_world "[Sniffing]"
        "''up.example''" "''http''" "[Select ''up.example:0'' ''http'']" node_up]
      single_dial_with_marker_feedback[of hop_handler client_conn down_world "[Sniffing]"
        "''down.example''" "[]" "[Select ''down.example:0'' []]" node_down]
      up down r1 r2 rl
    by (simp add: hop_session_facts node_up_def node_down_def)
qed

subsection \<open>C9\<close>

text \<open>
  C9. With a hop attached, an admitted session for which \<open>Select\<close> returns nil logs and
  returns the "target not available" error, and its trace holds no dial.
\<close>

theorem no_candidate_is_fatal:
  assumes "hop h = Some hp"
      and "snd (checkRateLimit h (RemoteAddr c))"
      and "sniff h c w = (ev1, host, protocol)"
      and "hp (normalize_host host) protocol = None"
  shows "Handle h c w =
           (fst (checkRateLimit h (RemoteAddr c)) @ ev1 @
              [Select (normalize_host host) protocol, LogError TargetNotAvailable, CloseConn],
            Returned (Some TargetNotAvailable)) \<and>
         (\<forall>n a. Dial n a \<notin> set (fst (Handle h c w)))"
proof -
  have s: "select_target h (normalize_host host) protocol =
             ([Select (normalize_host host) protocol], None)"
    using assms(1,4) by (simp add: select_target_def)
  have eq: "Handle h c w =
           (fst (checkRateLimit h (RemoteAddr c)) @ ev1 @
              [Select (normalize_host host) protocol, LogError TargetNotAvailable, CloseConn],
            Returned (Some TargetNotAvailable))"
    using Handle_no_target[OF assms(2,3) s] by simp
  have "filter is_Dial ev1 = []"
    using no_dial_sniff[of h c w] assms(3) by simp
  then have "filter is_Dial (fst (Handle h c w)) = []"
    by (simp add: eq no_dial_checkRateLimit)
  then show ?thesis
    using eq no_dial_in by blast
qed

text \<open>
  C9 at a host for which the hop has no node.
\<close>

theorem no_candidate_is_fatal_witness:
  "Handle hop_handler client_conn nowhere_world =
     ([Sniffing, Select ''nowhere.example:0'' [], LogError TargetNotAvailable, CloseConn],
      Returned (Some TargetNotAvailable)) \<and>
   Dial ''tcp'' ''nowhere.example:0'' \<notin> set (fst (Handle hop_handler client_conn nowhere_world))"
proof -
  have h: "hop hop_handler = Some (\<lambda>host protocol.
               if host = ''up.example:0'' then Some node_up
               else if host = ''down.example:0'' then Some node_down
               else None)"
    by (simp add: hop_handler_def)
  have n: "(\<lambda>host protocol.
               if host = ''up.example:0'' then Some node_up
               else if host = ''down.example:0'' then Some node_down
               else None) (normalize_host ''nowhere.example'') [] = None"
    by (simp add: normalize_host_samples)
  show ?thesis
    using no_candidate_is_fatal[OF h hop_session_facts(1) hop_session_facts(6) n]
    by (simp add: hop_session_facts normalize_host_samples)
qed

subsection \<open>C10\<close>

text \<open>
  C10. With no hop attached the target is the literal node, which has an address and no
  marker, so that an unguarded \<open>Mark()\<close> or \<open>Reset()\<close> on it would panic. Neither is
  called, the session never panics, and it returns the dial error when the dial fails and
  nil when it succeeds.
\<close>

theorem direct_forward_never_touches_marker:
  assumes "hop h = None"
  shows "select_target h host protocol = ([], Some \<lparr>Addr = host, Marker = None, HTTP = None\<rparr>) \<and>
         (\<forall>ev t. select_target h host protocol = (ev, Some t) \<longrightarrow>
            Marker_Mark (Marker t) = Inl NilDereference \<and>
            Marker_Reset (Marker t) = Inl NilDereference) \<and>
         (\<forall>p. snd (Handle h c w) \<noteq> Panicked p) \<and>
         (\<forall>m. Mark m \<notin> set (fst (Handle h c w)) \<and> Reset m \<notin> set (fst (Handle h c w))) \<and>
         (snd (checkRateLimit h (RemoteAddr c)) \<longrightarrow>
            (\<forall>e. router h (network_of c) (normalize_host (fst (snd (sniff h c w)))) = Some e \<longrightarrow>
               snd (Handle h c w) = Returned (Some e)) \<and>
            (router h (network_of c) (normalize_host (fst (snd (sniff h c w)))) = None \<longrightarrow>
               snd (Handle h c w) = Returned None))"
proof -
  let ?host = "normalize_host (fst (snd (sniff h c w)))"
  let ?t = "\<lparr>Addr = ?host, Marker = None, HTTP = None\<rparr>"
  have sel: "\<And>x y. select_target h x y = ([], Some \<lparr>Addr = x, Marker = None, HTTP = None\<rparr>)"
    using assms by (simp add: select_target_def)
  have sn: "sniff h c w = (fst (sniff h c w), fst (snd (sniff h c w)), snd (snd (sniff h c w)))"
    by simp
  have nm_sniff: "\<And>m. Mark m \<notin> set (fst (sniff h c w)) \<and> Reset m \<notin> set (fst (sniff h c w))"
    by (simp add: sniff_def)
  have nm_rate: "\<And>m a. Mark m \<notin> set (fst (checkRateLimit h a)) \<and> Reset m \<notin> set (fst (checkRateLimit h a))"
    by (simp add: checkRateLimit_def split: option.splits)
  have nm_relay: "\<And>m p. Mark m \<notin> set (relay p ?t w) \<and> Reset m \<notin> set (relay p ?t w)"
    by (simp add: relay_def)
  show ?thesis
  proof (cases "snd (checkRateLimit h (RemoteAddr c))")
    case False
    then show ?thesis
      using sel nm_rate by (simp add: Handle_denied Marker_Mark_def Marker_Reset_def)
  next
    case True
    show ?thesis
    proof (cases "router h (network_of c) ?host")
      case None
      then have "router h (network_of c) (Addr ?t) = None" by simp
      from Handle_dial_success[OF True sn sel this]
      show ?thesis using sel nm_rate nm_sniff nm_relay None True
        by (simp add: Marker_Mark_def Marker_Reset_def)
    next
      case (Some e)
      then have "router h (network_of c) (Addr ?t) = Some e" by simp
      from Handle_dial_failure[OF True sn sel this]
      show ?thesis using sel nm_rate nm_sniff Some True
        by (simp add: Marker_Mark_def Marker_Reset_def)
    qed
  qed
qed

text \<open>
  C10 at a router that connects and at one that refuses.
\<close>

theorem direct_forward_never_touches_marker_witness:
  "hop direct_handler = None \<and> hop refusing_handler = None \<and>
   select_target direct_handler '':0'' [] = ([], Some \<lparr>Addr = '':0'', Marker = None, HTTP = None\<rparr>) \<and>
   Marker_Mark (Marker \<lparr>Addr = '':0'', Marker = None, HTTP = None\<rparr>) = Inl NilDereference \<and>
   snd (Handle direct_handler client_conn sample_world) = Returned None \<and>
   snd (Handle refusing_handler client_conn sample_world) = Returned (Some refused_error) \<and>
   Mark 0 \<notin> set (fst (Handle refusing_handler client_conn sample_world)) \<and>
   Reset 0 \<notin> set (fst (Handle direct_handler client_conn sample_world)) \<and>
   snd (Handle refusing_handler client_conn sample_world) \<noteq> Panicked NilDereference"
proof -
  have a: "hop direct_handler = None" "hop refusing_handler = None"
    by (simp_all add: direct_handler_def refusing_handler_def)
  have b: "snd (checkRateLimit direct_handler (RemoteAddr client_conn))"
    "snd (checkRateLimit refusing_handler (RemoteAddr client_conn))"
    by (simp_all add: checkRateLimit_def direct_handler_def refusing_handler_def)
  have c: "router direct_handler (network_of client_conn)
             (normalize_host (fst (snd (sniff direct_handler client_conn sample_world)))) = None"
    "router refusing_handler (network_of client_conn)
       (normalize_host (fst (snd (sniff refusing_handler client_conn sample_world)))) =
     Some refused_error"
    by (simp_all add: direct_handler_def refusing_handler_def)
  show ?thesis
    using a b c
      direct_forward_never_touches_marker[OF a(1), of "'':0''" "[]" client_conn sample_world]
      direct_forward_never_touches_marker[OF a(2), of "'':0''" "[]" client_conn sample_world]
    by auto
qed

end
